theory Spec2Isabelle
  imports Complex_Main
begin

section \<open>Landed-cost engine of src/App.jsx\<close>

text \<open>
  The cost engine of the import-cost calculator is the chain of derived values in the
  body of the \<^verbatim>\<open>App\<close> component: unit volume, goods value, freight
  (\<^verbatim>\<open>calcFreight\<close>), insurance, customs base, duty, VAT, landed cost, unit
  cost, the cost composition and the sensitivity curve.

  Numbers. A JavaScript number is modelled by a real: every arithmetic operation is
  taken exactly, without the rounding of IEEE doubles, and NaN is not a value of the
  model. The only infinite number of the source is the threshold of the terminal tier
  (\<^verbatim>\<open>threshold: Infinity\<close>), so a threshold is either finite or
  \<open>Infinity\<close>.

  Exceptions. The only expression of the engine that can throw is the tier lookup, which
  reads \<^verbatim>\<open>.rate\<close> of \<^verbatim>\<open>tiers[tiers.length-1]\<close>; on an
  empty array that element is \<^verbatim>\<open>undefined\<close> and the read raises a
  TypeError. Results are therefore of type \<open>error + 'a\<close>.
\<close>

subsection \<open>Data\<close>

datatype error = TypeError

datatype threshold = Fin real | Infinity

record tier =
  threshold :: threshold
  rate :: real

text \<open>
  The five entries of \<^verbatim>\<open>MODES\<close>; \<open>UnknownMode\<close> stands for any other
  string, which reaches the last \<^verbatim>\<open>return\<close> of \<^verbatim>\<open>calcFreight\<close>.
\<close>

datatype mode =
  AereoExpress | AereoCarga | MaritimoLCL | MaritimoFCL20 | MaritimoFCL40 | UnknownMode

text \<open>The state of the component that the engine reads (the \<^verbatim>\<open>useState\<close> hooks).\<close>

record config =
  productOrigin :: string
  shipOrigin :: string
  mode :: mode
  incoterm :: string
  supplierCurrency :: string
  unitPrice :: real
  qty :: real
  unitWeightKg :: real
  unitLcm :: real
  unitWcm :: real
  unitHcm :: real
  fx :: "string \<rightharpoonup> real"
  insurancePct :: real
  brokerageFee :: real
  portTHC :: real
  otherFees :: real
  localOriginTransport :: real
  dutyPct :: real
  ignoreDuty :: bool
  originTariffEnabled :: bool
  originDutyMap :: "string \<rightharpoonup> real"
  vatPct :: real
  vatRecoverable :: bool
  airTiers :: "tier list"
  airVolFactor :: real
  airMinChargeKg :: real
  airFixedFees :: real
  lclTiers :: "tier list"
  lclMinCbm :: real
  lclFixedFees :: real
  fcl20Price :: real
  fcl40Price :: real
  fclFixedFees :: real

text \<open>
  What \<^verbatim>\<open>calcFreight\<close> describes in \<^verbatim>\<open>basisLabel\<close>. The label is
  a formatted string; the model keeps the numbers that are formatted into it.
\<close>

datatype basis =
  AirBasis real real
  | LclBasis real real
  | FclBasis real real
  | NoBasis

record freight_result =
  cost :: real
  basisLabel :: basis

record point =
  p_qty :: real
  p_unit :: real

subsection \<open>Constants\<close>

definition DEFAULT_FX :: "string \<rightharpoonup> real" where
  "DEFAULT_FX =
     [''EUR'' \<mapsto> 1, ''USD'' \<mapsto> 0.92, ''CNY'' \<mapsto> 0.128, ''KRW'' \<mapsto> 0.00067,
      ''HKD'' \<mapsto> 0.118, ''BRL'' \<mapsto> 0.18]"

definition DEFAULT_AIR_TIERS :: "tier list" where
  "DEFAULT_AIR_TIERS =
     [\<lparr>threshold = Fin 45, rate = 6.5\<rparr>,
      \<lparr>threshold = Fin 100, rate = 5.8\<rparr>,
      \<lparr>threshold = Fin 300, rate = 5.0\<rparr>,
      \<lparr>threshold = Fin 500, rate = 4.6\<rparr>,
      \<lparr>threshold = Infinity, rate = 4.2\<rparr>]"

definition DEFAULT_LCL_TIERS :: "tier list" where
  "DEFAULT_LCL_TIERS =
     [\<lparr>threshold = Fin 2, rate = 180\<rparr>,
      \<lparr>threshold = Fin 5, rate = 150\<rparr>,
      \<lparr>threshold = Fin 10, rate = 120\<rparr>,
      \<lparr>threshold = Infinity, rate = 100\<rparr>]"

text \<open>\<^verbatim>\<open>FCL_CAPACITY\<close>, in cubic metres, for the 20' and the 40' container.\<close>

definition FCL_CAPACITY_20 :: real where
  "FCL_CAPACITY_20 = 33.2"

definition FCL_CAPACITY_40 :: real where
  "FCL_CAPACITY_40 = 67.7"

text \<open>The initial state of the component.\<close>

definition initialConfig :: config where
  "initialConfig =
     \<lparr>productOrigin = ''China'', shipOrigin = ''China'', mode = AereoCarga,
      incoterm = ''EXW'', supplierCurrency = ''USD'', unitPrice = 300, qty = 100,
      unitWeightKg = 0.8, unitLcm = 17, unitWcm = 8, unitHcm = 5, fx = DEFAULT_FX,
      insurancePct = 0.5, brokerageFee = 120, portTHC = 150, otherFees = 50,
      localOriginTransport = 0, dutyPct = 0, ignoreDuty = True,
      originTariffEnabled = False,
      originDutyMap = [''China'' \<mapsto> 0, ''Korea'' \<mapsto> 0, ''Hong Kong'' \<mapsto> 0,
                       ''Brasil'' \<mapsto> 0, ''Outro'' \<mapsto> 0],
      vatPct = 23, vatRecoverable = True,
      airTiers = DEFAULT_AIR_TIERS, airVolFactor = 167, airMinChargeKg = 45,
      airFixedFees = 60, lclTiers = DEFAULT_LCL_TIERS, lclMinCbm = 1,
      lclFixedFees = 120, fcl20Price = 1800, fcl40Price = 2300, fclFixedFees = 300\<rparr>"

subsection \<open>Operators of the language\<close>

text \<open>\<^verbatim>\<open>a ?? b\<close>: \<open>b\<close> when \<open>a\<close> is undefined (an absent key), else \<open>a\<close>.\<close>

definition nullish :: "'a option \<Rightarrow> 'a \<Rightarrow> 'a" where
  "nullish a b = (case a of None \<Rightarrow> b | Some v \<Rightarrow> v)"

text \<open>\<^verbatim>\<open>a || b\<close> on numbers: \<open>b\<close> when \<open>a\<close> is zero, else \<open>a\<close>.\<close>

definition orElse :: "real \<Rightarrow> real \<Rightarrow> real" where
  "orElse a b = (if a = 0 then b else a)"

text \<open>\<^verbatim>\<open>x <= t.threshold\<close>.\<close>

fun leThreshold :: "real \<Rightarrow> threshold \<Rightarrow> bool" where
  "leThreshold x (Fin y) = (x \<le> y)"
| "leThreshold x Infinity = True"

text \<open>Sequencing of a computation that may have thrown.\<close>

definition bindE :: "error + 'a \<Rightarrow> ('a \<Rightarrow> error + 'b) \<Rightarrow> error + 'b" where
  "bindE m f = (case m of Inl e \<Rightarrow> Inl e | Inr v \<Rightarrow> f v)"

subsection \<open>Freight\<close>

definition unitVolumeM3 :: "config \<Rightarrow> real" where
  "unitVolumeM3 cfg = (unitLcm cfg / 100) * (unitWcm cfg / 100) * (unitHcm cfg / 100)"

definition totalVolumeM3 :: "config \<Rightarrow> real" where
  "totalVolumeM3 cfg = unitVolumeM3 cfg * qty cfg"

definition totalWeightKg :: "config \<Rightarrow> real" where
  "totalWeightKg cfg = unitWeightKg cfg * qty cfg"

definition goodsEUR :: "config \<Rightarrow> real" where
  "goodsEUR cfg = (unitPrice cfg * qty cfg) * nullish (fx cfg (supplierCurrency cfg)) 1"

text \<open>
  The lookup written twice in \<^verbatim>\<open>calcFreight\<close>:
  \<^verbatim>\<open>tiers.find(t => x <= t.threshold)?.rate ?? tiers[tiers.length-1].rate\<close>.
  When \<^verbatim>\<open>find\<close> returns nothing the right operand is evaluated, and it throws on
  an empty array.
\<close>

definition tierRate :: "tier list \<Rightarrow> real \<Rightarrow> error + real" where
  "tierRate tiers x =
     (case find (\<lambda>t. leThreshold x (threshold t)) tiers of
        Some t \<Rightarrow> Inr (rate t)
      | None \<Rightarrow> (if tiers = [] then Inl TypeError else Inr (rate (last tiers))))"

definition calcFreight :: "config \<Rightarrow> real \<Rightarrow> error + freight_result" where
  "calcFreight cfg q =
     (let volM3 = unitVolumeM3 cfg * q;
          kg = unitWeightKg cfg * q
      in
      if mode cfg = AereoExpress \<or> mode cfg = AereoCarga then
        (let volWeight = volM3 * airVolFactor cfg;
             chargeable = max (max kg volWeight) (airMinChargeKg cfg)
         in bindE (tierRate (airTiers cfg) chargeable) (\<lambda>rate.
              Inr \<lparr>cost = chargeable * rate + airFixedFees cfg,
                   basisLabel = AirBasis chargeable rate\<rparr>))
      else if mode cfg = MaritimoLCL then
        (let cbm = max volM3 (lclMinCbm cfg)
         in bindE (tierRate (lclTiers cfg) cbm) (\<lambda>rate.
              Inr \<lparr>cost = cbm * rate + lclFixedFees cfg,
                   basisLabel = LclBasis cbm rate\<rparr>))
      else if mode cfg = MaritimoFCL20 then
        (let cap = FCL_CAPACITY_20;
             containers = max 1 (of_int \<lceil>volM3 / cap\<rceil>);
             price = fcl20Price cfg * containers + fclFixedFees cfg;
             utilization = volM3 / (containers * cap)
         in Inr \<lparr>cost = price, basisLabel = FclBasis containers utilization\<rparr>)
      else if mode cfg = MaritimoFCL40 then
        (let cap = FCL_CAPACITY_40;
             containers = max 1 (of_int \<lceil>volM3 / cap\<rceil>);
             price = fcl40Price cfg * containers + fclFixedFees cfg;
             utilization = volM3 / (containers * cap)
         in Inr \<lparr>cost = price, basisLabel = FclBasis containers utilization\<rparr>)
      else Inr \<lparr>cost = 0, basisLabel = NoBasis\<rparr>)"

definition freight :: "config \<Rightarrow> error + freight_result" where
  "freight cfg = calcFreight cfg (qty cfg)"

subsection \<open>Customs, taxes and landed cost\<close>

definition insuranceEUR :: "config \<Rightarrow> error + real" where
  "insuranceEUR cfg =
     bindE (freight cfg) (\<lambda>fr.
       Inr ((goodsEUR cfg + cost fr) * (insurancePct cfg / 100)))"

definition customsBase :: "config \<Rightarrow> error + real" where
  "customsBase cfg =
     bindE (freight cfg) (\<lambda>fr. bindE (insuranceEUR cfg) (\<lambda>ins.
       (let base = (if incoterm cfg = ''CIF'' then goodsEUR cfg
                    else goodsEUR cfg + cost fr + ins)
        in Inr (base + localOriginTransport cfg))))"

definition dutyRateFromOrigin :: "config \<Rightarrow> real" where
  "dutyRateFromOrigin cfg =
     (if originTariffEnabled cfg
      then nullish (originDutyMap cfg (productOrigin cfg))
             (nullish (originDutyMap cfg ''Outro'') 0)
      else dutyPct cfg)"

definition effectiveDutyPct :: "config \<Rightarrow> real" where
  "effectiveDutyPct cfg = (if ignoreDuty cfg then 0 else dutyRateFromOrigin cfg)"

definition dutyEUR :: "config \<Rightarrow> error + real" where
  "dutyEUR cfg =
     bindE (customsBase cfg) (\<lambda>cb. Inr (cb * (effectiveDutyPct cfg / 100)))"

definition vatBase :: "config \<Rightarrow> error + real" where
  "vatBase cfg =
     bindE (customsBase cfg) (\<lambda>cb. bindE (dutyEUR cfg) (\<lambda>duty.
       Inr (cb + duty + brokerageFee cfg + portTHC cfg + otherFees cfg)))"

definition vatEUR :: "config \<Rightarrow> error + real" where
  "vatEUR cfg = bindE (vatBase cfg) (\<lambda>vb. Inr (vb * (vatPct cfg / 100)))"

definition landedExVAT :: "config \<Rightarrow> error + real" where
  "landedExVAT cfg =
     bindE (freight cfg) (\<lambda>fr. bindE (insuranceEUR cfg) (\<lambda>ins.
     bindE (dutyEUR cfg) (\<lambda>duty.
       (let base = goodsEUR cfg + localOriginTransport cfg + cost fr + ins + duty
                   + brokerageFee cfg + portTHC cfg + otherFees cfg
        in Inr base))))"

definition landedInclVAT :: "config \<Rightarrow> error + real" where
  "landedInclVAT cfg =
     bindE (landedExVAT cfg) (\<lambda>ex. bindE (vatEUR cfg) (\<lambda>vat.
       Inr (ex + (if vatRecoverable cfg then 0 else vat))))"

definition unitLanded :: "config \<Rightarrow> error + real" where
  "unitLanded cfg =
     bindE (landedInclVAT cfg) (\<lambda>incl. Inr (incl / orElse (qty cfg) 1))"


text \<open>
  The slices of the cost chart: named amounts, of which those that are not positive are
  dropped.
\<close>

definition composition :: "config \<Rightarrow> error + (string \<times> real) list" where
  "composition cfg =
     bindE (freight cfg) (\<lambda>fr. bindE (insuranceEUR cfg) (\<lambda>ins.
     bindE (dutyEUR cfg) (\<lambda>duty.
       Inr (filter (\<lambda>x. snd x > 0)
         [(''Mercadoria'', goodsEUR cfg),
          (''Origem produto: '' @ productOrigin cfg, 0),
          (''Transp. Local (origem)'', localOriginTransport cfg),
          (''Frete ('' @ shipOrigin cfg @ '')'', cost fr),
          (''Seguro'', ins),
          (''Direitos'', duty),
          (''Despachante'', brokerageFee cfg),
          (''THC/Porto'', portTHC cfg),
          (''Outras Taxas'', otherFees cfg)]))))"

subsection \<open>Sensitivity curve\<close>

text \<open>
  The local constants of one iteration of the loop in \<^verbatim>\<open>sensitivityData\<close>,
  under the names the source gives them.
\<close>

record sens_locals =
  l_q :: real
  l_goods :: real
  l_fr :: real
  l_ins :: real
  l_customs :: real
  l_dutyRate :: real
  l_duty :: real
  l_exVAT :: real
  l_vatB :: real
  l_vat :: real
  l_total :: real

text \<open>\<^verbatim>\<open>Math.round(x)\<close> is \<open>\<lfloor>x + 1/2\<rfloor>\<close>, which is \<open>round\<close> of HOL.\<close>

definition sensBody :: "config \<Rightarrow> real \<Rightarrow> real \<Rightarrow> nat \<Rightarrow> nat \<Rightarrow> error + sens_locals" where
  "sensBody cfg qMin qMax steps i =
     (let q = of_int (round (qMin + (real i * (qMax - qMin) / real steps)));
          goods = (unitPrice cfg * q) * nullish (fx cfg (supplierCurrency cfg)) 1
      in bindE (calcFreight cfg q) (\<lambda>f.
        (let fr = cost f;
             ins = (goods + fr) * (insurancePct cfg / 100);
             customs = (if incoterm cfg = ''CIF'' then goods + localOriginTransport cfg
                        else goods + fr + ins + localOriginTransport cfg);
             dutyRate = (if ignoreDuty cfg then 0
                         else if originTariffEnabled cfg
                              then nullish (originDutyMap cfg (productOrigin cfg))
                                     (nullish (originDutyMap cfg ''Outro'') 0)
                              else dutyPct cfg);
             duty = customs * (dutyRate / 100);
             exVAT = goods + localOriginTransport cfg + fr + ins + duty
                     + brokerageFee cfg + portTHC cfg + otherFees cfg;
             vatB = customs + duty + brokerageFee cfg + portTHC cfg + otherFees cfg;
             vat = vatB * (vatPct cfg / 100);
             total = exVAT + (if vatRecoverable cfg then 0 else vat)
         in Inr \<lparr>l_q = q, l_goods = goods, l_fr = fr, l_ins = ins, l_customs = customs,
                 l_dutyRate = dutyRate, l_duty = duty, l_exVAT = exVAT, l_vatB = vatB,
                 l_vat = vat, l_total = total\<rparr>)))"

text \<open>
  The loop \<^verbatim>\<open>for (let i = 0; i <= steps; i++)\<close> over the values of \<open>i\<close> still
  to come; each iteration pushes \<^verbatim>\<open>{ qty: q, unit: total / q }\<close>.
\<close>

fun sensLoop :: "config \<Rightarrow> real \<Rightarrow> real \<Rightarrow> nat \<Rightarrow> nat list \<Rightarrow> point list \<Rightarrow> error + point list" where
  "sensLoop cfg qMin qMax steps [] points = Inr points"
| "sensLoop cfg qMin qMax steps (i # is) points =
     bindE (sensBody cfg qMin qMax steps i) (\<lambda>l.
       sensLoop cfg qMin qMax steps is
         (points @ [\<lparr>p_qty = l_q l, p_unit = l_total l / l_q l\<rparr>]))"

definition sensitivityData :: "config \<Rightarrow> error + point list" where
  "sensitivityData cfg =
     (let qMin = 10;
          qMax = max 2000 (qty cfg * 2);
          steps = 40
      in sensLoop cfg qMin qMax steps [0..<Suc steps] [])"

subsection \<open>Definitions of the specification\<close>

text \<open>
  The invariant of a tier table: thresholds strictly increasing, where \<open>Infinity\<close> lies
  above every finite threshold.
\<close>

fun thrLess :: "threshold \<Rightarrow> threshold \<Rightarrow> bool" where
  "thrLess (Fin a) (Fin b) = (a < b)"
| "thrLess (Fin a) Infinity = True"
| "thrLess Infinity b = False"

definition strictlyIncreasing :: "tier list \<Rightarrow> bool" where
  "strictlyIncreasing tiers =
     sorted_wrt (\<lambda>a b. thrLess (threshold a) (threshold b)) tiers"




text \<open>
  The sampler. The quantity of sample \<open>i\<close> of the 41 samples, evenly spaced from 10 to
  \<open>max 2000 (2 * qty)\<close> and rounded to an integer.
\<close>

definition sampleQty :: "config \<Rightarrow> nat \<Rightarrow> real" where
  "sampleQty cfg i = of_int (round (10 + (real i * (max 2000 (qty cfg * 2) - 10) / 40)))"

text \<open>
  For each sample, the main pipeline is run again with the sampled quantity in place of
  the configured one, all other fields unchanged, and its unit landed cost is recorded.
\<close>

fun sampleSensitivity :: "config \<Rightarrow> nat list \<Rightarrow> error + point list" where
  "sampleSensitivity cfg [] = Inr []"
| "sampleSensitivity cfg (i # is) =
     bindE (unitLanded (cfg\<lparr>qty := sampleQty cfg i\<rparr>)) (\<lambda>u.
     bindE (sampleSensitivity cfg is) (\<lambda>ps.
       Inr (\<lparr>p_qty = sampleQty cfg i, p_unit = u\<rparr> # ps)))"

subsection \<open>Example states\<close>






section \<open>Properties\<close>

subsection \<open>Tier lookup\<close>

lemma leThreshold_thrLess:
  "leThreshold x a \<Longrightarrow> thrLess a b \<Longrightarrow> leThreshold x b"
  by (cases a; cases b) auto

lemma tierRate_found:
  assumes "i < length tiers"
    and "leThreshold x (threshold (tiers ! i))"
    and "\<forall>j<i. \<not> leThreshold x (threshold (tiers ! j))"
  shows "tierRate tiers x = Inr (rate (tiers ! i))"
proof -
  have "find (\<lambda>t. leThreshold x (threshold t)) tiers = Some (tiers ! i)"
    using assms by (auto simp: find_Some_iff)
  then show ?thesis by (simp add: tierRate_def)
qed

lemma tierRate_none:
  assumes "tiers \<noteq> []" and "\<forall>t\<in>set tiers. \<not> leThreshold x (threshold t)"
  shows "tierRate tiers x = Inr (rate (last tiers))"
proof -
  have "find (\<lambda>t. leThreshold x (threshold t)) tiers = None"
    using assms(2) by (simp add: find_None_iff)
  with assms(1) show ?thesis by (simp add: tierRate_def)
qed

lemma first_index:
  assumes "\<exists>t\<in>set tiers. P t"
  shows "\<exists>i<length tiers. P (tiers ! i) \<and> (\<forall>j<i. \<not> P (tiers ! j))"
proof -
  from assms obtain t where "find P tiers = Some t"
    by (cases "find P tiers") (auto simp: find_None_iff)
  then show ?thesis by (auto simp: find_Some_iff)
qed

lemma after_first_qualify:
  assumes inc: "strictlyIncreasing tiers"
    and i: "i < length tiers" "leThreshold x (threshold (tiers ! i))"
    and k: "i < k" "k < length tiers"
  shows "leThreshold x (threshold (tiers ! k))"
proof -
  have "thrLess (threshold (tiers ! i)) (threshold (tiers ! k))"
    using sorted_wrt_nth_less [of "\<lambda>a b. thrLess (threshold a) (threshold b)" tiers i k] inc k
    by (simp add: strictlyIncreasing_def)
  with i(2) show ?thesis by (rule leThreshold_thrLess)
qed

lemma tierRate_spec:
  assumes ne: "tiers \<noteq> []" and inc: "strictlyIncreasing tiers"
  shows "(\<exists>i<length tiers.
            tierRate tiers x = Inr (rate (tiers ! i))
            \<and> leThreshold x (threshold (tiers ! i))
            \<and> (\<forall>j<length tiers. leThreshold x (threshold (tiers ! j)) = (i \<le> j)))
         \<or> ((\<forall>t\<in>set tiers. \<not> leThreshold x (threshold t))
            \<and> tierRate tiers x = Inr (rate (last tiers)))"
proof (cases "\<exists>t\<in>set tiers. leThreshold x (threshold t)")
  case True
  from first_index [OF True] obtain i where i: "i < length tiers"
    "leThreshold x (threshold (tiers ! i))"
    "\<forall>j<i. \<not> leThreshold x (threshold (tiers ! j))" by blast
  have "leThreshold x (threshold (tiers ! j)) = (i \<le> j)" if "j < length tiers" for j
  proof (cases "j < i")
    case True
    with i(3) show ?thesis by auto
  next
    case False
    then consider "j = i" | "i < j" by linarith
    then show ?thesis
    proof cases
      case 1
      with i(2) show ?thesis by simp
    next
      case 2
      with after_first_qualify [OF inc i(1,2) 2 that] show ?thesis by simp
    qed
  qed
  with i tierRate_found [OF i] show ?thesis by blast
next
  case False
  with tierRate_none [OF ne] show ?thesis by blast
qed

text \<open>
  On an increasing table only the last tier can have the threshold \<open>Infinity\<close>, so a
  quantity above every finite threshold resolves to the last tier, found or fallen
  back to.
\<close>

lemma tierRate_above_finite:
  assumes ne: "tiers \<noteq> []" and inc: "strictlyIncreasing tiers"
    and above: "\<forall>t\<in>set tiers. threshold t \<noteq> Infinity \<longrightarrow> \<not> leThreshold x (threshold t)"
  shows "tierRate tiers x = Inr (rate (last tiers))"
proof -
  from tierRate_spec [OF ne inc, of x] consider
    (found) i where "i < length tiers" "tierRate tiers x = Inr (rate (tiers ! i))"
      "leThreshold x (threshold (tiers ! i))"
    | (none) "tierRate tiers x = Inr (rate (last tiers))"
    by blast
  then show ?thesis
  proof cases
    case found
    from found(1) have mem: "tiers ! i \<in> set tiers"
      by simp
    with above found(3) have inf: "threshold (tiers ! i) = Infinity"
      by blast
    have "i = length tiers - 1"
    proof (rule ccontr)
      assume "i \<noteq> length tiers - 1"
      with found(1) have "i < Suc i" "Suc i < length tiers"
        by simp_all
      with inc have "thrLess (threshold (tiers ! i)) (threshold (tiers ! Suc i))"
        using sorted_wrt_nth_less [of "\<lambda>a b. thrLess (threshold a) (threshold b)" tiers i "Suc i"]
        by (simp add: strictlyIncreasing_def)
      with inf show False
        by simp
    qed
    with ne found(2) show ?thesis
      by (simp add: last_conv_nth)
  next
    case none
    then show ?thesis .
  qed
qed

lemma strictlyIncreasing_DEFAULT_AIR_TIERS: "strictlyIncreasing DEFAULT_AIR_TIERS"
  by (simp add: strictlyIncreasing_def DEFAULT_AIR_TIERS_def)

text \<open>
  C1. On a non-empty tier table with strictly increasing thresholds the lookup never
  throws and resolves to exactly one rate. Either some tier has a threshold at or above
  the chargeable quantity \<open>x\<close>; then the rate is that of the tier at the first such
  position \<open>i\<close>, and since the thresholds increase the tiers at or above \<open>x\<close> are
  exactly those from position \<open>i\<close> on, so tier \<open>i\<close> is the one with the smallest
  qualifying threshold. Or no tier qualifies, and the rate is that of the last tier. In
  particular a quantity above every finite threshold resolves to the rate of the last
  tier. On the default air table, 45 resolves to 6.5, 100 to 5.8, 301 to 4.6 and 10000
  to 4.2.
\<close>

theorem tierRate_first_qualifying_tier:
  assumes "tiers \<noteq> []" and "strictlyIncreasing tiers"
  shows "((\<exists>i<length tiers.
             tierRate tiers x = Inr (rate (tiers ! i))
             \<and> leThreshold x (threshold (tiers ! i))
             \<and> (\<forall>j<length tiers. leThreshold x (threshold (tiers ! j)) = (i \<le> j)))
          \<or> ((\<forall>t\<in>set tiers. \<not> leThreshold x (threshold t))
             \<and> tierRate tiers x = Inr (rate (last tiers))))
         \<and> ((\<forall>t\<in>set tiers. threshold t \<noteq> Infinity \<longrightarrow> \<not> leThreshold x (threshold t))
              \<longrightarrow> tierRate tiers x = Inr (rate (last tiers)))
         \<and> tierRate DEFAULT_AIR_TIERS 45 = Inr 6.5
         \<and> tierRate DEFAULT_AIR_TIERS 100 = Inr 5.8
         \<and> tierRate DEFAULT_AIR_TIERS 301 = Inr 4.6
         \<and> tierRate DEFAULT_AIR_TIERS 10000 = Inr 4.2"
proof -
  have "tierRate DEFAULT_AIR_TIERS 45 = Inr 6.5"
    by (simp add: tierRate_def DEFAULT_AIR_TIERS_def)
  moreover have "tierRate DEFAULT_AIR_TIERS 100 = Inr 5.8"
    by (simp add: tierRate_def DEFAULT_AIR_TIERS_def)
  moreover have "tierRate DEFAULT_AIR_TIERS 301 = Inr 4.6"
    by (simp add: tierRate_def DEFAULT_AIR_TIERS_def)
  moreover have "tierRate DEFAULT_AIR_TIERS 10000 = Inr 4.2"
    by (simp add: tierRate_def DEFAULT_AIR_TIERS_def)
  ultimately show ?thesis
    using tierRate_spec [OF assms, of x] tierRate_above_finite [OF assms, of x] by blast
qed

theorem tierRate_first_qualifying_tier_witness:
  "DEFAULT_AIR_TIERS \<noteq> [] \<and> strictlyIncreasing DEFAULT_AIR_TIERS
   \<and> tierRate DEFAULT_AIR_TIERS 301 = Inr (rate (DEFAULT_AIR_TIERS ! 3))
   \<and> leThreshold 301 (threshold (DEFAULT_AIR_TIERS ! 3))
   \<and> \<not> leThreshold 301 (threshold (DEFAULT_AIR_TIERS ! 2))
   \<and> \<not> leThreshold 10000 (threshold (DEFAULT_AIR_TIERS ! 3))
   \<and> tierRate DEFAULT_AIR_TIERS 10000 = Inr (rate (last DEFAULT_AIR_TIERS))
   \<and> rate (last DEFAULT_AIR_TIERS) = 4.2"
proof -
  have ne: "DEFAULT_AIR_TIERS \<noteq> []"
    by (simp add: DEFAULT_AIR_TIERS_def)
  have rest: "leThreshold 301 (threshold (DEFAULT_AIR_TIERS ! 3))
      \<and> \<not> leThreshold 301 (threshold (DEFAULT_AIR_TIERS ! 2))
      \<and> \<not> leThreshold 10000 (threshold (DEFAULT_AIR_TIERS ! 3))
      \<and> rate (DEFAULT_AIR_TIERS ! 3) = 4.6
      \<and> rate (last DEFAULT_AIR_TIERS) = 4.2"
    by (simp add: DEFAULT_AIR_TIERS_def)
  have above: "\<forall>t\<in>set DEFAULT_AIR_TIERS.
      threshold t \<noteq> Infinity \<longrightarrow> \<not> leThreshold 10000 (threshold t)"
    by (simp add: DEFAULT_AIR_TIERS_def)
  show ?thesis
    using tierRate_first_qualifying_tier [OF ne strictlyIncreasing_DEFAULT_AIR_TIERS, of 301]
      tierRate_first_qualifying_tier [OF ne strictlyIncreasing_DEFAULT_AIR_TIERS, of 10000]
      ne strictlyIncreasing_DEFAULT_AIR_TIERS rest above
    by simp
qed

subsection \<open>The pipeline when freight is computed\<close>

lemma bindE_Inl: "bindE (Inl e) f = Inl e"
  by (simp add: bindE_def)

lemma bindE_Inr: "bindE (Inr v) f = f v"
  by (simp add: bindE_def)

lemmas bindE_simps = bindE_Inl bindE_Inr

lemma insuranceEUR_ok:
  "freight cfg = Inr fr \<Longrightarrow>
   insuranceEUR cfg = Inr ((goodsEUR cfg + cost fr) * (insurancePct cfg / 100))"
  by (simp add: insuranceEUR_def bindE_simps)

lemma customsBase_ok:
  "freight cfg = Inr fr \<Longrightarrow> insuranceEUR cfg = Inr ins \<Longrightarrow>
   customsBase cfg =
     Inr ((if incoterm cfg = ''CIF'' then goodsEUR cfg else goodsEUR cfg + cost fr + ins)
          + localOriginTransport cfg)"
  by (simp add: customsBase_def bindE_simps)

lemma dutyEUR_ok:
  "customsBase cfg = Inr cb \<Longrightarrow> dutyEUR cfg = Inr (cb * (effectiveDutyPct cfg / 100))"
  by (simp add: dutyEUR_def bindE_simps)

lemma vatBase_ok:
  "customsBase cfg = Inr cb \<Longrightarrow> dutyEUR cfg = Inr duty \<Longrightarrow>
   vatBase cfg = Inr (cb + duty + brokerageFee cfg + portTHC cfg + otherFees cfg)"
  by (simp add: vatBase_def bindE_simps)

lemma vatEUR_ok:
  "vatBase cfg = Inr vb \<Longrightarrow> vatEUR cfg = Inr (vb * (vatPct cfg / 100))"
  by (simp add: vatEUR_def bindE_simps)

lemma landedExVAT_ok:
  "freight cfg = Inr fr \<Longrightarrow> insuranceEUR cfg = Inr ins \<Longrightarrow> dutyEUR cfg = Inr duty \<Longrightarrow>
   landedExVAT cfg =
     Inr (goodsEUR cfg + localOriginTransport cfg + cost fr + ins + duty
          + brokerageFee cfg + portTHC cfg + otherFees cfg)"
  by (simp add: landedExVAT_def bindE_simps)

lemma landedInclVAT_ok:
  "landedExVAT cfg = Inr ex \<Longrightarrow> vatEUR cfg = Inr vat \<Longrightarrow>
   landedInclVAT cfg = Inr (ex + (if vatRecoverable cfg then 0 else vat))"
  by (simp add: landedInclVAT_def bindE_simps)

lemma unitLanded_ok:
  "landedInclVAT cfg = Inr incl \<Longrightarrow> unitLanded cfg = Inr (incl / orElse (qty cfg) 1)"
  by (simp add: unitLanded_def bindE_simps)

text \<open>The engine at the initial state.\<close>

lemma unitVolumeM3_initial: "unitVolumeM3 initialConfig = 17 / 25000"
  by (simp add: unitVolumeM3_def initialConfig_def)

lemma freight_initial:
  "freight initialConfig = Inr \<lparr>cost = 524, basisLabel = AirBasis 80 5.8\<rparr>"
  by (simp add: freight_def calcFreight_def unitVolumeM3_initial Let_def)
     (simp add: initialConfig_def tierRate_def DEFAULT_AIR_TIERS_def bindE_simps)

lemma goodsEUR_initial: "goodsEUR initialConfig = 27600"
  by (simp add: goodsEUR_def initialConfig_def DEFAULT_FX_def nullish_def)

lemma insuranceEUR_initial: "insuranceEUR initialConfig = Inr 140.62"
  using insuranceEUR_ok [OF freight_initial]
  by (simp add: goodsEUR_initial) (simp add: initialConfig_def)

lemma customsBase_initial: "customsBase initialConfig = Inr 28264.62"
  using customsBase_ok [OF freight_initial insuranceEUR_initial]
  by (simp add: goodsEUR_initial) (simp add: initialConfig_def)

lemma effectiveDutyPct_initial: "effectiveDutyPct initialConfig = 0"
  by (simp add: effectiveDutyPct_def initialConfig_def)

lemma dutyEUR_initial: "dutyEUR initialConfig = Inr 0"
  using dutyEUR_ok [OF customsBase_initial] by (simp add: effectiveDutyPct_initial)

lemma vatBase_initial: "vatBase initialConfig = Inr 28584.62"
  using vatBase_ok [OF customsBase_initial dutyEUR_initial]
  by (simp add: initialConfig_def)

lemma vatEUR_initial: "vatEUR initialConfig = Inr 6574.4626"
  using vatEUR_ok [OF vatBase_initial] by (simp add: initialConfig_def)

lemma landedExVAT_initial: "landedExVAT initialConfig = Inr 28584.62"
  using landedExVAT_ok [OF freight_initial insuranceEUR_initial dutyEUR_initial]
  by (simp add: goodsEUR_initial) (simp add: initialConfig_def)

lemma landedInclVAT_initial: "landedInclVAT initialConfig = Inr 28584.62"
  using landedInclVAT_ok [OF landedExVAT_initial vatEUR_initial]
  by (simp add: initialConfig_def)

lemma unitLanded_initial: "unitLanded initialConfig = Inr 285.8462"
  using unitLanded_ok [OF landedInclVAT_initial]
  by (simp add: initialConfig_def orElse_def)

subsection \<open>What each value reads\<close>

text \<open>
  Two states that agree on the fields a value reads give the same value. The lemmas
  follow the dependency arrays of the \<^verbatim>\<open>useMemo\<close> hooks.
\<close>

lemma calcFreight_frame:
  assumes "unitLcm a = unitLcm b" "unitWcm a = unitWcm b" "unitHcm a = unitHcm b"
    and "unitWeightKg a = unitWeightKg b" "mode a = mode b"
    and "airTiers a = airTiers b" "airVolFactor a = airVolFactor b"
    and "airMinChargeKg a = airMinChargeKg b" "airFixedFees a = airFixedFees b"
    and "lclTiers a = lclTiers b" "lclMinCbm a = lclMinCbm b"
    and "lclFixedFees a = lclFixedFees b"
    and "fcl20Price a = fcl20Price b" "fcl40Price a = fcl40Price b"
    and "fclFixedFees a = fclFixedFees b"
  shows "calcFreight a q = calcFreight b q"
  unfolding calcFreight_def unitVolumeM3_def assms ..

lemma freight_frame:
  assumes "\<And>q. calcFreight a q = calcFreight b q" and "qty a = qty b"
  shows "freight a = freight b"
  by (simp add: freight_def assms)

lemma goodsEUR_frame:
  assumes "unitPrice a = unitPrice b" "qty a = qty b"
    and "nullish (fx a (supplierCurrency a)) 1 = nullish (fx b (supplierCurrency b)) 1"
  shows "goodsEUR a = goodsEUR b"
  by (simp add: goodsEUR_def assms)

lemma insuranceEUR_frame:
  assumes "freight a = freight b" "goodsEUR a = goodsEUR b"
    and "insurancePct a = insurancePct b"
  shows "insuranceEUR a = insuranceEUR b"
  unfolding insuranceEUR_def assms ..

lemma customsBase_frame:
  assumes "freight a = freight b" "insuranceEUR a = insuranceEUR b"
    and "goodsEUR a = goodsEUR b" "incoterm a = incoterm b"
    and "localOriginTransport a = localOriginTransport b"
  shows "customsBase a = customsBase b"
  unfolding customsBase_def assms ..

lemma effectiveDutyPct_frame:
  assumes "ignoreDuty a = ignoreDuty b" "originTariffEnabled a = originTariffEnabled b"
    and "originDutyMap a = originDutyMap b" "productOrigin a = productOrigin b"
    and "dutyPct a = dutyPct b"
  shows "effectiveDutyPct a = effectiveDutyPct b"
  unfolding effectiveDutyPct_def dutyRateFromOrigin_def assms ..

lemma dutyEUR_frame:
  assumes "customsBase a = customsBase b" "effectiveDutyPct a = effectiveDutyPct b"
  shows "dutyEUR a = dutyEUR b"
  unfolding dutyEUR_def assms ..

lemma vatBase_frame:
  assumes "customsBase a = customsBase b" "dutyEUR a = dutyEUR b"
    and "brokerageFee a = brokerageFee b" "portTHC a = portTHC b"
    and "otherFees a = otherFees b"
  shows "vatBase a = vatBase b"
  unfolding vatBase_def assms ..

lemma vatEUR_frame:
  assumes "vatBase a = vatBase b" "vatPct a = vatPct b"
  shows "vatEUR a = vatEUR b"
  unfolding vatEUR_def assms ..

lemma landedExVAT_frame:
  assumes "freight a = freight b" "insuranceEUR a = insuranceEUR b"
    and "dutyEUR a = dutyEUR b" "goodsEUR a = goodsEUR b"
    and "localOriginTransport a = localOriginTransport b"
    and "brokerageFee a = brokerageFee b" "portTHC a = portTHC b"
    and "otherFees a = otherFees b"
  shows "landedExVAT a = landedExVAT b"
  unfolding landedExVAT_def assms ..

lemma landedInclVAT_frame:
  assumes "landedExVAT a = landedExVAT b" "vatEUR a = vatEUR b"
    and "vatRecoverable a = vatRecoverable b"
  shows "landedInclVAT a = landedInclVAT b"
  unfolding landedInclVAT_def assms ..

lemma unitLanded_frame:
  assumes "landedInclVAT a = landedInclVAT b" "qty a = qty b"
  shows "unitLanded a = unitLanded b"
  unfolding unitLanded_def assms ..

lemma sensBody_frame:
  assumes "\<And>q. calcFreight a q = calcFreight b q"
    and "unitPrice a = unitPrice b"
    and "nullish (fx a (supplierCurrency a)) 1 = nullish (fx b (supplierCurrency b)) 1"
    and "insurancePct a = insurancePct b"
    and "incoterm a = incoterm b" "localOriginTransport a = localOriginTransport b"
    and "ignoreDuty a = ignoreDuty b" "originTariffEnabled a = originTariffEnabled b"
    and "originDutyMap a = originDutyMap b" "productOrigin a = productOrigin b"
    and "dutyPct a = dutyPct b" "brokerageFee a = brokerageFee b"
    and "portTHC a = portTHC b" "otherFees a = otherFees b" "vatPct a = vatPct b"
    and "vatRecoverable a = vatRecoverable b"
  shows "sensBody a qMin qMax steps i = sensBody b qMin qMax steps i"
  unfolding sensBody_def assms ..

lemma sensLoop_frame:
  assumes "\<And>i. sensBody a qMin qMax steps i = sensBody b qMin qMax steps i"
  shows "sensLoop a qMin qMax steps is points = sensLoop b qMin qMax steps is points"
  by (induction "is" arbitrary: points) (simp_all add: assms)

lemma sensitivityData_frame:
  assumes "\<And>qMin qMax steps i. sensBody a qMin qMax steps i = sensBody b qMin qMax steps i"
    and "qty a = qty b"
  shows "sensitivityData a = sensitivityData b"
  unfolding sensitivityData_def assms(2) Let_def by (rule sensLoop_frame) (rule assms(1))

subsection \<open>The incoterm\<close>

lemma calcFreight_incoterm: "calcFreight (cfg\<lparr>incoterm := t\<rparr>) q = calcFreight cfg q"
  by (rule calcFreight_frame) simp_all

lemma freight_incoterm: "freight (cfg\<lparr>incoterm := t\<rparr>) = freight cfg"
  by (rule freight_frame) (simp_all add: calcFreight_incoterm)

lemma goodsEUR_incoterm: "goodsEUR (cfg\<lparr>incoterm := t\<rparr>) = goodsEUR cfg"
  by (rule goodsEUR_frame) simp_all

lemma insuranceEUR_incoterm: "insuranceEUR (cfg\<lparr>incoterm := t\<rparr>) = insuranceEUR cfg"
  by (rule insuranceEUR_frame) (simp_all add: freight_incoterm goodsEUR_incoterm)

lemma sensBody_initial_3:
  "sensBody initialConfig 10 2000 40 3 =
     Inr \<lparr>l_q = 159, l_goods = 43884, l_fr = 696, l_ins = 222.9, l_customs = 44802.9,
          l_dutyRate = 0, l_duty = 0, l_exVAT = 45122.9, l_vatB = 45122.9,
          l_vat = 10378.267, l_total = 45122.9\<rparr>"
  by code_simp

text \<open>
  C3. Whenever freight and insurance are computed, the customs base is goods value plus
  local-origin transport under CIF, and goods value plus freight cost plus insurance plus
  local-origin transport under EXW and FOB. Changing only the incoterm leaves goods,
  freight and insurance as they are, so the CIF base leaves out freight and insurance and
  the EXW/FOB base includes them. The loop of the sensitivity curve computes its customs
  base by the same rule from its own goods, freight and insurance.
\<close>

theorem customsBase_by_incoterm:
  assumes "freight cfg = Inr fr" and "insuranceEUR cfg = Inr ins"
  shows "(incoterm cfg = ''CIF'' \<longrightarrow>
            customsBase cfg = Inr (goodsEUR cfg + localOriginTransport cfg))
         \<and> (incoterm cfg = ''EXW'' \<or> incoterm cfg = ''FOB'' \<longrightarrow>
              customsBase cfg =
                Inr (goodsEUR cfg + cost fr + ins + localOriginTransport cfg))
         \<and> customsBase (cfg\<lparr>incoterm := ''CIF''\<rparr>) =
              Inr (goodsEUR cfg + localOriginTransport cfg)
         \<and> customsBase (cfg\<lparr>incoterm := ''EXW''\<rparr>) =
              Inr (goodsEUR cfg + cost fr + ins + localOriginTransport cfg)
         \<and> customsBase (cfg\<lparr>incoterm := ''FOB''\<rparr>) =
              Inr (goodsEUR cfg + cost fr + ins + localOriginTransport cfg)
         \<and> (\<forall>l. sensBody cfg qMin qMax steps i = Inr l \<longrightarrow>
               l_customs l =
                 (if incoterm cfg = ''CIF'' then l_goods l + localOriginTransport cfg
                  else l_goods l + l_fr l + l_ins l + localOriginTransport cfg))"
proof -
  have direct: "customsBase cfg =
      Inr ((if incoterm cfg = ''CIF'' then goodsEUR cfg else goodsEUR cfg + cost fr + ins)
           + localOriginTransport cfg)"
    using assms by (rule customsBase_ok)
  have upd: "customsBase (cfg\<lparr>incoterm := t\<rparr>) =
      Inr ((if t = ''CIF'' then goodsEUR cfg else goodsEUR cfg + cost fr + ins)
           + localOriginTransport cfg)" for t
    using customsBase_ok [of "cfg\<lparr>incoterm := t\<rparr>" fr ins] assms
    by (simp add: freight_incoterm insuranceEUR_incoterm goodsEUR_incoterm)
  have sens: "l_customs l =
      (if incoterm cfg = ''CIF'' then l_goods l + localOriginTransport cfg
       else l_goods l + l_fr l + l_ins l + localOriginTransport cfg)"
    if "sensBody cfg qMin qMax steps i = Inr l" for l
  proof (cases "calcFreight cfg (of_int (round (qMin + (real i * (qMax - qMin) / real steps))))")
    case (Inl e)
    with that show ?thesis by (simp add: sensBody_def bindE_simps Let_def)
  next
    case (Inr f)
    with that show ?thesis by (simp add: sensBody_def bindE_simps Let_def) (cases l, simp)
  qed
  show ?thesis
    using direct upd [of "''CIF''"] upd [of "''EXW''"] upd [of "''FOB''"] sens
    by auto
qed

theorem customsBase_by_incoterm_witness:
  "freight initialConfig = Inr \<lparr>cost = 524, basisLabel = AirBasis 80 5.8\<rparr>
   \<and> insuranceEUR initialConfig = Inr 140.62
   \<and> incoterm initialConfig = ''EXW''
   \<and> goodsEUR initialConfig = 27600
   \<and> localOriginTransport initialConfig = 0
   \<and> customsBase initialConfig = Inr (27600 + 524 + 140.62 + 0)
   \<and> incoterm (initialConfig\<lparr>incoterm := ''CIF''\<rparr>) = ''CIF''
   \<and> customsBase (initialConfig\<lparr>incoterm := ''CIF''\<rparr>) = Inr (27600 + 0)
   \<and> sensBody initialConfig 10 2000 40 3 =
        Inr \<lparr>l_q = 159, l_goods = 43884, l_fr = 696, l_ins = 222.9, l_customs = 44802.9,
          l_dutyRate = 0, l_duty = 0, l_exVAT = 45122.9, l_vatB = 45122.9,
          l_vat = 10378.267, l_total = 45122.9\<rparr>
   \<and> (44802.9 :: real) = 43884 + 696 + 222.9 + 0"
proof -
  have f: "freight (initialConfig\<lparr>incoterm := ''CIF''\<rparr>)
      = Inr \<lparr>cost = 524, basisLabel = AirBasis 80 5.8\<rparr>"
    by (simp add: freight_incoterm freight_initial)
  have ins: "insuranceEUR (initialConfig\<lparr>incoterm := ''CIF''\<rparr>) = Inr 140.62"
    by (simp add: insuranceEUR_incoterm insuranceEUR_initial)
  have loc: "localOriginTransport initialConfig = 0" "incoterm initialConfig = ''EXW''"
    by (simp_all add: initialConfig_def)
  show ?thesis
    using customsBase_by_incoterm [OF freight_initial insuranceEUR_initial, of 10 2000 40 3]
      customsBase_by_incoterm [OF f ins, of 10 2000 40 3]
      freight_initial insuranceEUR_initial goodsEUR_initial sensBody_initial_3 loc
    by (simp add: goodsEUR_incoterm)
qed

subsection \<open>The VAT-recoverable flag\<close>

lemma calcFreight_vatRecoverable:
  "calcFreight (cfg\<lparr>vatRecoverable := b\<rparr>) q = calcFreight cfg q"
  by (rule calcFreight_frame) simp_all

lemma freight_vatRecoverable: "freight (cfg\<lparr>vatRecoverable := b\<rparr>) = freight cfg"
  by (rule freight_frame) (simp_all add: calcFreight_vatRecoverable)

lemma goodsEUR_vatRecoverable: "goodsEUR (cfg\<lparr>vatRecoverable := b\<rparr>) = goodsEUR cfg"
  by (rule goodsEUR_frame) simp_all

lemma insuranceEUR_vatRecoverable:
  "insuranceEUR (cfg\<lparr>vatRecoverable := b\<rparr>) = insuranceEUR cfg"
  by (rule insuranceEUR_frame) (simp_all add: freight_vatRecoverable goodsEUR_vatRecoverable)

lemma customsBase_vatRecoverable:
  "customsBase (cfg\<lparr>vatRecoverable := b\<rparr>) = customsBase cfg"
  by (rule customsBase_frame)
    (simp_all add: freight_vatRecoverable goodsEUR_vatRecoverable insuranceEUR_vatRecoverable)

lemma effectiveDutyPct_vatRecoverable:
  "effectiveDutyPct (cfg\<lparr>vatRecoverable := b\<rparr>) = effectiveDutyPct cfg"
  by (rule effectiveDutyPct_frame) simp_all

lemma dutyEUR_vatRecoverable: "dutyEUR (cfg\<lparr>vatRecoverable := b\<rparr>) = dutyEUR cfg"
  by (rule dutyEUR_frame)
    (simp_all add: customsBase_vatRecoverable effectiveDutyPct_vatRecoverable)

lemma vatBase_vatRecoverable: "vatBase (cfg\<lparr>vatRecoverable := b\<rparr>) = vatBase cfg"
  by (rule vatBase_frame) (simp_all add: customsBase_vatRecoverable dutyEUR_vatRecoverable)

lemma vatEUR_vatRecoverable: "vatEUR (cfg\<lparr>vatRecoverable := b\<rparr>) = vatEUR cfg"
  by (rule vatEUR_frame) (simp_all add: vatBase_vatRecoverable)

lemma landedExVAT_vatRecoverable:
  "landedExVAT (cfg\<lparr>vatRecoverable := b\<rparr>) = landedExVAT cfg"
  by (rule landedExVAT_frame)
    (simp_all add: freight_vatRecoverable goodsEUR_vatRecoverable
      insuranceEUR_vatRecoverable dutyEUR_vatRecoverable)

text \<open>
  C6. Whenever the landed cost without VAT and the VAT amount are computed, the landed
  cost with VAT equals the landed cost without VAT when VAT is recoverable, and the
  landed cost without VAT plus the VAT amount when it is not; setting only the flag
  changes neither of the two amounts.
\<close>

theorem landedInclVAT_vatRecoverable:
  assumes "landedExVAT cfg = Inr ex" and "vatEUR cfg = Inr vat"
  shows "(vatRecoverable cfg \<longrightarrow> landedInclVAT cfg = Inr ex)
         \<and> (\<not> vatRecoverable cfg \<longrightarrow> landedInclVAT cfg = Inr (ex + vat))
         \<and> landedInclVAT (cfg\<lparr>vatRecoverable := True\<rparr>) = Inr ex
         \<and> landedInclVAT (cfg\<lparr>vatRecoverable := False\<rparr>) = Inr (ex + vat)"
proof -
  have "landedInclVAT cfg = Inr (ex + (if vatRecoverable cfg then 0 else vat))"
    using assms by (rule landedInclVAT_ok)
  moreover have "landedInclVAT (cfg\<lparr>vatRecoverable := b\<rparr>) =
      Inr (ex + (if b then 0 else vat))" for b
    using landedInclVAT_ok [of "cfg\<lparr>vatRecoverable := b\<rparr>" ex vat] assms
    by (simp add: landedExVAT_vatRecoverable vatEUR_vatRecoverable)
  ultimately show ?thesis by simp
qed

theorem landedInclVAT_vatRecoverable_witness:
  "landedExVAT initialConfig = Inr 28584.62
   \<and> vatEUR initialConfig = Inr 6574.4626
   \<and> vatRecoverable initialConfig
   \<and> landedInclVAT initialConfig = Inr 28584.62
   \<and> \<not> vatRecoverable (initialConfig\<lparr>vatRecoverable := False\<rparr>)
   \<and> landedInclVAT (initialConfig\<lparr>vatRecoverable := False\<rparr>) = Inr (28584.62 + 6574.4626)"
proof -
  have ex: "landedExVAT (initialConfig\<lparr>vatRecoverable := False\<rparr>) = Inr 28584.62"
    by (simp add: landedExVAT_vatRecoverable landedExVAT_initial)
  have vat: "vatEUR (initialConfig\<lparr>vatRecoverable := False\<rparr>) = Inr 6574.4626"
    by (simp add: vatEUR_vatRecoverable vatEUR_initial)
  have rec: "vatRecoverable initialConfig"
    by (simp add: initialConfig_def)
  show ?thesis
    using landedInclVAT_vatRecoverable [OF landedExVAT_initial vatEUR_initial]
      landedInclVAT_vatRecoverable [OF ex vat]
      landedExVAT_initial vatEUR_initial rec
    by simp
qed





subsection \<open>The duty policy\<close>








subsection \<open>Full containers\<close>











subsection \<open>One iteration of the sensitivity loop\<close>

lemma sensBody_Inr:
  assumes "sensBody cfg qMin qMax steps i = Inr l"
  shows "\<exists>f. calcFreight cfg (l_q l) = Inr f
    \<and> l_q l = of_int (round (qMin + (real i * (qMax - qMin) / real steps)))
    \<and> l_goods l = (unitPrice cfg * l_q l) * nullish (fx cfg (supplierCurrency cfg)) 1
    \<and> l_fr l = cost f
    \<and> l_ins l = (l_goods l + l_fr l) * (insurancePct cfg / 100)
    \<and> l_customs l =
        (if incoterm cfg = ''CIF'' then l_goods l + localOriginTransport cfg
         else l_goods l + l_fr l + l_ins l + localOriginTransport cfg)
    \<and> l_dutyRate l = effectiveDutyPct cfg
    \<and> l_duty l = l_customs l * (l_dutyRate l / 100)
    \<and> l_exVAT l = l_goods l + localOriginTransport cfg + l_fr l + l_ins l + l_duty l
          + brokerageFee cfg + portTHC cfg + otherFees cfg
    \<and> l_vatB l = l_customs l + l_duty l + brokerageFee cfg + portTHC cfg + otherFees cfg
    \<and> l_vat l = l_vatB l * (vatPct cfg / 100)
    \<and> l_total l = l_exVAT l + (if vatRecoverable cfg then 0 else l_vat l)"
proof (cases "calcFreight cfg (of_int (round (qMin + (real i * (qMax - qMin) / real steps))))")
  case (Inl e)
  with assms show ?thesis
    by (simp add: sensBody_def bindE_simps Let_def)
next
  case (Inr f)
  with assms show ?thesis
    by (intro exI [of _ f])
      (auto simp add: sensBody_def bindE_simps Let_def effectiveDutyPct_def
        dutyRateFromOrigin_def)
qed

lemma sensBody_Inl:
  assumes "sensBody cfg qMin qMax steps i = Inl e"
  shows "calcFreight cfg (of_int (round (qMin + (real i * (qMax - qMin) / real steps)))) = Inl e"
proof (cases "calcFreight cfg (of_int (round (qMin + (real i * (qMax - qMin) / real steps))))")
  case (Inl e')
  with assms show ?thesis
    by (simp add: sensBody_def bindE_simps Let_def)
next
  case (Inr f)
  with assms show ?thesis
    by (simp add: sensBody_def bindE_simps Let_def)
qed

subsection \<open>The quantity\<close>

lemma calcFreight_qty: "calcFreight (cfg\<lparr>qty := v\<rparr>) q = calcFreight cfg q"
  by (rule calcFreight_frame) simp_all

lemma freight_qty: "freight (cfg\<lparr>qty := v\<rparr>) = calcFreight cfg v"
  by (simp add: freight_def calcFreight_qty)

lemma goodsEUR_qty:
  "goodsEUR (cfg\<lparr>qty := v\<rparr>) = (unitPrice cfg * v) * nullish (fx cfg (supplierCurrency cfg)) 1"
  by (simp add: goodsEUR_def)

lemma effectiveDutyPct_qty: "effectiveDutyPct (cfg\<lparr>qty := v\<rparr>) = effectiveDutyPct cfg"
  by (rule effectiveDutyPct_frame) simp_all

lemma unitLanded_fails:
  assumes "freight cfg = Inl e"
  shows "unitLanded cfg = Inl e"
  using assms
  by (simp add: unitLanded_def landedInclVAT_def landedExVAT_def bindE_simps)

text \<open>
  The main pipeline at the quantity of an iteration computes, value by value, the local
  constants of that iteration.
\<close>

lemma pipeline_at_sample:
  assumes "sensBody cfg qMin qMax steps i = Inr l"
  shows "goodsEUR (cfg\<lparr>qty := l_q l\<rparr>) = l_goods l
    \<and> map_sum id cost (freight (cfg\<lparr>qty := l_q l\<rparr>)) = Inr (l_fr l)
    \<and> insuranceEUR (cfg\<lparr>qty := l_q l\<rparr>) = Inr (l_ins l)
    \<and> customsBase (cfg\<lparr>qty := l_q l\<rparr>) = Inr (l_customs l)
    \<and> effectiveDutyPct (cfg\<lparr>qty := l_q l\<rparr>) = l_dutyRate l
    \<and> dutyEUR (cfg\<lparr>qty := l_q l\<rparr>) = Inr (l_duty l)
    \<and> vatBase (cfg\<lparr>qty := l_q l\<rparr>) = Inr (l_vatB l)
    \<and> vatEUR (cfg\<lparr>qty := l_q l\<rparr>) = Inr (l_vat l)
    \<and> landedExVAT (cfg\<lparr>qty := l_q l\<rparr>) = Inr (l_exVAT l)
    \<and> landedInclVAT (cfg\<lparr>qty := l_q l\<rparr>) = Inr (l_total l)
    \<and> unitLanded (cfg\<lparr>qty := l_q l\<rparr>) = Inr (l_total l / orElse (l_q l) 1)"
proof -
  let ?c = "cfg\<lparr>qty := l_q l\<rparr>"
  from sensBody_Inr [OF assms] obtain f where f: "calcFreight cfg (l_q l) = Inr f"
    and goods: "l_goods l = (unitPrice cfg * l_q l) * nullish (fx cfg (supplierCurrency cfg)) 1"
    and fr: "l_fr l = cost f"
    and ins: "l_ins l = (l_goods l + l_fr l) * (insurancePct cfg / 100)"
    and customs: "l_customs l =
        (if incoterm cfg = ''CIF'' then l_goods l + localOriginTransport cfg
         else l_goods l + l_fr l + l_ins l + localOriginTransport cfg)"
    and rate: "l_dutyRate l = effectiveDutyPct cfg"
    and duty: "l_duty l = l_customs l * (l_dutyRate l / 100)"
    and exVAT: "l_exVAT l = l_goods l + localOriginTransport cfg + l_fr l + l_ins l + l_duty l
          + brokerageFee cfg + portTHC cfg + otherFees cfg"
    and vatB: "l_vatB l = l_customs l + l_duty l + brokerageFee cfg + portTHC cfg + otherFees cfg"
    and vat: "l_vat l = l_vatB l * (vatPct cfg / 100)"
    and total: "l_total l = l_exVAT l + (if vatRecoverable cfg then 0 else l_vat l)"
    by blast
  have 1: "goodsEUR ?c = l_goods l"
    by (simp add: goodsEUR_qty goods)
  have 2: "freight ?c = Inr f"
    by (simp add: freight_qty f)
  have 3: "insuranceEUR ?c = Inr (l_ins l)"
    using insuranceEUR_ok [OF 2] by (simp add: 1 ins fr)
  have 4: "customsBase ?c = Inr (l_customs l)"
    using customsBase_ok [OF 2 3] by (simp add: 1 customs fr)
  have 5: "effectiveDutyPct ?c = l_dutyRate l"
    by (simp add: effectiveDutyPct_qty rate)
  have 6: "dutyEUR ?c = Inr (l_duty l)"
    using dutyEUR_ok [OF 4] by (simp add: 5 duty)
  have 7: "vatBase ?c = Inr (l_vatB l)"
    using vatBase_ok [OF 4 6] by (simp add: vatB)
  have 8: "vatEUR ?c = Inr (l_vat l)"
    using vatEUR_ok [OF 7] by (simp add: vat)
  have 9: "landedExVAT ?c = Inr (l_exVAT l)"
    using landedExVAT_ok [OF 2 3 6] by (simp add: 1 exVAT fr)
  have 10: "landedInclVAT ?c = Inr (l_total l)"
    using landedInclVAT_ok [OF 9 8] by (simp add: total)
  have 11: "unitLanded ?c = Inr (l_total l / orElse (l_q l) 1)"
    using unitLanded_ok [OF 10] by simp
  from 1 2 3 4 5 6 7 8 9 10 11 fr show ?thesis
    by simp
qed

lemma round_ge_10:
  assumes "(10::real) \<le> qMax"
  shows "(10::real) \<le> of_int (round (10 + (real i * (qMax - 10) / 40)))"
proof -
  have "0 \<le> real i * (qMax - 10) / 40"
    using assms by simp
  then have "round (10::real) \<le> round (10 + (real i * (qMax - 10) / 40))"
    by (intro round_mono) simp
  then have "(10::int) \<le> round (10 + (real i * (qMax - 10) / 40))"
    by simp
  then show ?thesis
    by linarith
qed

subsection \<open>The sensitivity curve and the main pipeline\<close>

lemma sampleQty_ge_10: "10 \<le> sampleQty cfg i"
  unfolding sampleQty_def using round_ge_10 [of "max 2000 (qty cfg * 2)" i] by simp

lemma sensBody_sample_Inr:
  assumes "sensBody cfg 10 (max 2000 (qty cfg * 2)) 40 i = Inr l"
  shows "l_q l = sampleQty cfg i"
    and "unitLanded (cfg\<lparr>qty := sampleQty cfg i\<rparr>) = Inr (l_total l / l_q l)"
proof -
  from sensBody_Inr [OF assms] show q: "l_q l = sampleQty cfg i"
    by (auto simp: sampleQty_def)
  have "orElse (l_q l) 1 = l_q l"
    using sampleQty_ge_10 [of cfg i] by (simp add: q orElse_def)
  with pipeline_at_sample [OF assms] show
    "unitLanded (cfg\<lparr>qty := sampleQty cfg i\<rparr>) = Inr (l_total l / l_q l)"
    by (simp add: q)
qed

lemma sensBody_sample_Inl:
  assumes "sensBody cfg 10 (max 2000 (qty cfg * 2)) 40 i = Inl e"
  shows "unitLanded (cfg\<lparr>qty := sampleQty cfg i\<rparr>) = Inl e"
proof -
  have "calcFreight cfg (sampleQty cfg i) = Inl e"
    using sensBody_Inl [OF assms] by (simp add: sampleQty_def)
  then show ?thesis
    by (intro unitLanded_fails) (simp add: freight_qty)
qed

lemma sensLoop_sampleSensitivity:
  "sensLoop cfg 10 (max 2000 (qty cfg * 2)) 40 is points =
     bindE (sampleSensitivity cfg is) (\<lambda>ps. Inr (points @ ps))"
proof (induction "is" arbitrary: points)
  case Nil
  show ?case by (simp add: bindE_simps)
next
  case (Cons i "is")
  show ?case
  proof (cases "sensBody cfg 10 (max 2000 (qty cfg * 2)) 40 i")
    case (Inl e)
    with sensBody_sample_Inl [OF Inl] show ?thesis
      by (simp add: bindE_simps)
  next
    case (Inr l)
    note q = sensBody_sample_Inr [OF Inr]
    show ?thesis
    proof (cases "sampleSensitivity cfg is")
      case (Inl e)
      then show ?thesis
        by (simp add: Inr q Cons.IH bindE_simps)
    next
      case (Inr ps)
      then show ?thesis
        by (simp add: \<open>sensBody cfg 10 (max 2000 (qty cfg * 2)) 40 i = Inr l\<close> q Cons.IH
            bindE_simps)
    qed
  qed
qed

lemma sensitivityData_sampleSensitivity:
  "sensitivityData cfg = sampleSensitivity cfg [0..<41]"
proof -
  have "sensitivityData cfg = sensLoop cfg 10 (max 2000 (qty cfg * 2)) 40 [0..<41] []"
    by (simp add: sensitivityData_def Let_def del: upt_Suc)
  also have "\<dots> = bindE (sampleSensitivity cfg [0..<41]) (\<lambda>ps. Inr ([] @ ps))"
    by (rule sensLoop_sampleSensitivity)
  also have "\<dots> = sampleSensitivity cfg [0..<41]"
    by (cases "sampleSensitivity cfg [0..<41]") (simp_all add: bindE_simps)
  finally show ?thesis .
qed

lemma sampleSensitivity_points:
  assumes "sampleSensitivity cfg is = Inr ps"
  shows "length ps = length is
    \<and> (\<forall>k<length is. p_qty (ps ! k) = sampleQty cfg (is ! k)
          \<and> unitLanded (cfg\<lparr>qty := p_qty (ps ! k)\<rparr>) = Inr (p_unit (ps ! k)))"
  using assms
proof (induction "is" arbitrary: ps)
  case Nil
  then show ?case by simp
next
  case (Cons i "is")
  from Cons.prems obtain u where u: "unitLanded (cfg\<lparr>qty := sampleQty cfg i\<rparr>) = Inr u"
    by (cases "unitLanded (cfg\<lparr>qty := sampleQty cfg i\<rparr>)") (simp_all add: bindE_simps)
  with Cons.prems obtain rest where rest: "sampleSensitivity cfg is = Inr rest"
    by (cases "sampleSensitivity cfg is") (simp_all add: bindE_simps)
  with Cons.prems u have ps: "ps = \<lparr>p_qty = sampleQty cfg i, p_unit = u\<rparr> # rest"
    by (simp add: bindE_simps)
  from Cons.IH [OF rest] have len: "length rest = length is"
    and pts: "\<And>k. k < length is \<Longrightarrow> p_qty (rest ! k) = sampleQty cfg (is ! k)
          \<and> unitLanded (cfg\<lparr>qty := p_qty (rest ! k)\<rparr>) = Inr (p_unit (rest ! k))"
    by blast+
  have "p_qty (ps ! k) = sampleQty cfg ((i # is) ! k)
      \<and> unitLanded (cfg\<lparr>qty := p_qty (ps ! k)\<rparr>) = Inr (p_unit (ps ! k))"
    if "k < length (i # is)" for k
  proof (cases k)
    case 0
    then show ?thesis by (simp add: ps u)
  next
    case (Suc j)
    with that pts [of j] show ?thesis by (auto simp add: ps)
  qed
  then have "\<forall>k<length (i # is). p_qty (ps ! k) = sampleQty cfg ((i # is) ! k)
      \<and> unitLanded (cfg\<lparr>qty := p_qty (ps ! k)\<rparr>) = Inr (p_unit (ps ! k))"
    by blast
  moreover have "length ps = length (i # is)"
    by (simp add: ps len)
  ultimately show ?case by blast
qed

text \<open>
  C2. The sensitivity curve is what the specification's sampler gives: for each of the
  41 sample quantities, the unit landed cost of the main pipeline run with that quantity
  in place of the configured one, all other fields unchanged; the curve throws exactly
  when that run does. So when the curve is computed it has 41 points, point \<open>k\<close> carries
  sample quantity \<open>k\<close>, and its unit cost is the unit landed cost of the main pipeline at
  that quantity. Value by value, the local constants of an iteration are the values of
  the main pipeline at the iteration's quantity: goods, freight cost, insurance, customs
  base, duty, VAT base, VAT, landed cost without and with VAT, and unit cost.
\<close>

theorem sensitivityData_is_pipeline_at_samples:
  "sensitivityData cfg = sampleSensitivity cfg [0..<41]
   \<and> (sensitivityData cfg = Inr points \<longrightarrow>
        length points = 41
        \<and> (\<forall>k<41. p_qty (points ! k) = sampleQty cfg k
              \<and> unitLanded (cfg\<lparr>qty := p_qty (points ! k)\<rparr>) = Inr (p_unit (points ! k))))
   \<and> (sensBody cfg 10 (max 2000 (qty cfg * 2)) 40 i = Inr l \<longrightarrow>
        l_q l = sampleQty cfg i
        \<and> goodsEUR (cfg\<lparr>qty := l_q l\<rparr>) = l_goods l
        \<and> map_sum id cost (calcFreight (cfg\<lparr>qty := l_q l\<rparr>) (l_q l)) = Inr (l_fr l)
        \<and> insuranceEUR (cfg\<lparr>qty := l_q l\<rparr>) = Inr (l_ins l)
        \<and> customsBase (cfg\<lparr>qty := l_q l\<rparr>) = Inr (l_customs l)
        \<and> dutyEUR (cfg\<lparr>qty := l_q l\<rparr>) = Inr (l_duty l)
        \<and> vatBase (cfg\<lparr>qty := l_q l\<rparr>) = Inr (l_vatB l)
        \<and> vatEUR (cfg\<lparr>qty := l_q l\<rparr>) = Inr (l_vat l)
        \<and> landedExVAT (cfg\<lparr>qty := l_q l\<rparr>) = Inr (l_exVAT l)
        \<and> landedInclVAT (cfg\<lparr>qty := l_q l\<rparr>) = Inr (l_total l)
        \<and> unitLanded (cfg\<lparr>qty := l_q l\<rparr>) = Inr (l_total l / l_q l))"
proof -
  have curve: "sensitivityData cfg = sampleSensitivity cfg [0..<41]"
    by (rule sensitivityData_sampleSensitivity)
  have pts: "length points = 41
      \<and> (\<forall>k<41. p_qty (points ! k) = sampleQty cfg k
            \<and> unitLanded (cfg\<lparr>qty := p_qty (points ! k)\<rparr>) = Inr (p_unit (points ! k)))"
    if "sensitivityData cfg = Inr points"
    using sampleSensitivity_points [of cfg "[0..<41]" points] that
    by (auto simp add: curve simp del: upt_Suc)
  have body: "l_q l = sampleQty cfg i
      \<and> goodsEUR (cfg\<lparr>qty := l_q l\<rparr>) = l_goods l
      \<and> map_sum id cost (calcFreight (cfg\<lparr>qty := l_q l\<rparr>) (l_q l)) = Inr (l_fr l)
      \<and> insuranceEUR (cfg\<lparr>qty := l_q l\<rparr>) = Inr (l_ins l)
      \<and> customsBase (cfg\<lparr>qty := l_q l\<rparr>) = Inr (l_customs l)
      \<and> dutyEUR (cfg\<lparr>qty := l_q l\<rparr>) = Inr (l_duty l)
      \<and> vatBase (cfg\<lparr>qty := l_q l\<rparr>) = Inr (l_vatB l)
      \<and> vatEUR (cfg\<lparr>qty := l_q l\<rparr>) = Inr (l_vat l)
      \<and> landedExVAT (cfg\<lparr>qty := l_q l\<rparr>) = Inr (l_exVAT l)
      \<and> landedInclVAT (cfg\<lparr>qty := l_q l\<rparr>) = Inr (l_total l)
      \<and> unitLanded (cfg\<lparr>qty := l_q l\<rparr>) = Inr (l_total l / l_q l)"
    if l: "sensBody cfg 10 (max 2000 (qty cfg * 2)) 40 i = Inr l"
    using pipeline_at_sample [OF l] sensBody_sample_Inr [OF l]
    by (simp add: freight_def)
  from curve pts body show ?thesis
    by blast
qed

lemma sensitivityData_initial:
  "sensitivityData initialConfig = Inr (projr (sensitivityData initialConfig))"
  "projr (sensitivityData initialConfig) ! 3 = \<lparr>p_qty = 159, p_unit = 451229 / 1590\<rparr>"
  by code_simp+

theorem sensitivityData_is_pipeline_at_samples_witness:
  "sensitivityData initialConfig = sampleSensitivity initialConfig [0..<41]
   \<and> map_sum id length (sensitivityData initialConfig) = Inr 41
   \<and> map_sum id (\<lambda>ps. ps ! 3) (sensitivityData initialConfig)
       = Inr \<lparr>p_qty = 159, p_unit = 451229 / 1590\<rparr>
   \<and> sampleQty initialConfig 3 = 159
   \<and> unitLanded (initialConfig\<lparr>qty := 159\<rparr>) = Inr (451229 / 1590)
   \<and> sensBody initialConfig 10 (max 2000 (qty initialConfig * 2)) 40 3 =
        Inr \<lparr>l_q = 159, l_goods = 43884, l_fr = 696, l_ins = 222.9, l_customs = 44802.9,
          l_dutyRate = 0, l_duty = 0, l_exVAT = 45122.9, l_vatB = 45122.9,
          l_vat = 10378.267, l_total = 45122.9\<rparr>
   \<and> goodsEUR (initialConfig\<lparr>qty := 159\<rparr>) = 43884
   \<and> insuranceEUR (initialConfig\<lparr>qty := 159\<rparr>) = Inr 222.9
   \<and> customsBase (initialConfig\<lparr>qty := 159\<rparr>) = Inr 44802.9
   \<and> vatEUR (initialConfig\<lparr>qty := 159\<rparr>) = Inr 10378.267
   \<and> landedInclVAT (initialConfig\<lparr>qty := 159\<rparr>) = Inr 45122.9"
proof -
  let ?points = "projr (sensitivityData initialConfig)"
  let ?l = "\<lparr>l_q = 159, l_goods = 43884, l_fr = 696, l_ins = 222.9, l_customs = 44802.9,
          l_dutyRate = 0, l_duty = 0, l_exVAT = 45122.9, l_vatB = 45122.9,
          l_vat = 10378.267, l_total = 45122.9\<rparr>"
  note T = sensitivityData_is_pipeline_at_samples [of initialConfig ?points 3 ?l]
  have qMax: "max 2000 (qty initialConfig * 2) = 2000"
    by (simp add: initialConfig_def)
  have body: "sensBody initialConfig 10 (max 2000 (qty initialConfig * 2)) 40 3 = Inr ?l"
    by (simp only: qMax sensBody_initial_3)
  from T sensitivityData_initial(1) have len: "length ?points = 41"
    and pts: "\<forall>k<41. p_qty (?points ! k) = sampleQty initialConfig k
        \<and> unitLanded (initialConfig\<lparr>qty := p_qty (?points ! k)\<rparr>) = Inr (p_unit (?points ! k))"
    by blast+
  have "(3::nat) < 41"
    by simp
  with pts have "p_qty (?points ! 3) = sampleQty initialConfig 3
      \<and> unitLanded (initialConfig\<lparr>qty := p_qty (?points ! 3)\<rparr>) = Inr (p_unit (?points ! 3))"
    by blast
  then have third: "sampleQty initialConfig 3 = 159"
    "unitLanded (initialConfig\<lparr>qty := 159\<rparr>) = Inr (451229 / 1590)"
    by (simp_all add: sensitivityData_initial(2))
  have curve: "map_sum id length (sensitivityData initialConfig) = Inr 41"
    "map_sum id (\<lambda>ps. ps ! 3) (sensitivityData initialConfig)
       = Inr \<lparr>p_qty = 159, p_unit = 451229 / 1590\<rparr>"
    using sensitivityData_initial len
    by (cases "sensitivityData initialConfig"; simp)+
  from T body have vals: "goodsEUR (initialConfig\<lparr>qty := l_q ?l\<rparr>) = l_goods ?l"
    "insuranceEUR (initialConfig\<lparr>qty := l_q ?l\<rparr>) = Inr (l_ins ?l)"
    "customsBase (initialConfig\<lparr>qty := l_q ?l\<rparr>) = Inr (l_customs ?l)"
    "vatEUR (initialConfig\<lparr>qty := l_q ?l\<rparr>) = Inr (l_vat ?l)"
    "landedInclVAT (initialConfig\<lparr>qty := l_q ?l\<rparr>) = Inr (l_total ?l)"
    by blast+
  from T have "sensitivityData initialConfig = sampleSensitivity initialConfig [0..<41]"
    by blast
  with third curve body vals show ?thesis
    by simp
qed

subsection \<open>A currency missing from the exchange-rate table\<close>







subsection \<open>Freight on non-empty tier tables\<close>










subsection \<open>The shipment origin\<close>

lemma calcFreight_shipOrigin: "calcFreight (cfg\<lparr>shipOrigin := s\<rparr>) q = calcFreight cfg q"
  by (rule calcFreight_frame) simp_all

lemma freight_shipOrigin: "freight (cfg\<lparr>shipOrigin := s\<rparr>) = freight cfg"
  by (rule freight_frame) (simp_all add: calcFreight_shipOrigin)

lemma goodsEUR_shipOrigin: "goodsEUR (cfg\<lparr>shipOrigin := s\<rparr>) = goodsEUR cfg"
  by (rule goodsEUR_frame) simp_all

lemma insuranceEUR_shipOrigin: "insuranceEUR (cfg\<lparr>shipOrigin := s\<rparr>) = insuranceEUR cfg"
  by (rule insuranceEUR_frame) (simp_all add: freight_shipOrigin goodsEUR_shipOrigin)

lemma customsBase_shipOrigin: "customsBase (cfg\<lparr>shipOrigin := s\<rparr>) = customsBase cfg"
  by (rule customsBase_frame)
    (simp_all add: freight_shipOrigin goodsEUR_shipOrigin insuranceEUR_shipOrigin)

lemma effectiveDutyPct_shipOrigin:
  "effectiveDutyPct (cfg\<lparr>shipOrigin := s\<rparr>) = effectiveDutyPct cfg"
  by (rule effectiveDutyPct_frame) simp_all

lemma dutyEUR_shipOrigin: "dutyEUR (cfg\<lparr>shipOrigin := s\<rparr>) = dutyEUR cfg"
  by (rule dutyEUR_frame) (simp_all add: customsBase_shipOrigin effectiveDutyPct_shipOrigin)

lemma vatBase_shipOrigin: "vatBase (cfg\<lparr>shipOrigin := s\<rparr>) = vatBase cfg"
  by (rule vatBase_frame) (simp_all add: customsBase_shipOrigin dutyEUR_shipOrigin)

lemma vatEUR_shipOrigin: "vatEUR (cfg\<lparr>shipOrigin := s\<rparr>) = vatEUR cfg"
  by (rule vatEUR_frame) (simp_all add: vatBase_shipOrigin)

lemma landedExVAT_shipOrigin: "landedExVAT (cfg\<lparr>shipOrigin := s\<rparr>) = landedExVAT cfg"
  by (rule landedExVAT_frame)
    (simp_all add: freight_shipOrigin goodsEUR_shipOrigin insuranceEUR_shipOrigin
      dutyEUR_shipOrigin)

lemma landedInclVAT_shipOrigin: "landedInclVAT (cfg\<lparr>shipOrigin := s\<rparr>) = landedInclVAT cfg"
  by (rule landedInclVAT_frame) (simp_all add: landedExVAT_shipOrigin vatEUR_shipOrigin)

lemma unitLanded_shipOrigin: "unitLanded (cfg\<lparr>shipOrigin := s\<rparr>) = unitLanded cfg"
  by (rule unitLanded_frame) (simp_all add: landedInclVAT_shipOrigin)

lemma sensBody_shipOrigin:
  "sensBody (cfg\<lparr>shipOrigin := s\<rparr>) qMin qMax steps i = sensBody cfg qMin qMax steps i"
  by (rule sensBody_frame) (simp_all add: calcFreight_shipOrigin)

lemma sensitivityData_shipOrigin:
  "sensitivityData (cfg\<lparr>shipOrigin := s\<rparr>) = sensitivityData cfg"
  by (rule sensitivityData_frame) (simp_all add: sensBody_shipOrigin)

text \<open>The amounts of the cost chart, without their labels.\<close>

lemma composition_amounts:
  "map_sum id (map snd) (composition cfg) =
     bindE (freight cfg) (\<lambda>fr. bindE (insuranceEUR cfg) (\<lambda>ins.
     bindE (dutyEUR cfg) (\<lambda>duty.
       Inr (filter (\<lambda>v. v > 0)
         [goodsEUR cfg, 0, localOriginTransport cfg, cost fr, ins, duty,
          brokerageFee cfg, portTHC cfg, otherFees cfg]))))"
proof (cases "freight cfg")
  case (Inl e)
  then show ?thesis by (simp add: composition_def bindE_simps)
next
  case fr: (Inr fr)
  show ?thesis
  proof (cases "insuranceEUR cfg")
    case (Inl e)
    with fr show ?thesis by (simp add: composition_def bindE_simps)
  next
    case ins: (Inr ins)
    show ?thesis
    proof (cases "dutyEUR cfg")
      case (Inl e)
      with fr ins show ?thesis by (simp add: composition_def bindE_simps)
    next
      case (Inr duty)
      with fr ins show ?thesis by (simp add: composition_def bindE_simps)
    qed
  qed
qed

lemma composition_shipOrigin:
  "map_sum id (map snd) (composition (cfg\<lparr>shipOrigin := s\<rparr>))
     = map_sum id (map snd) (composition cfg)"
  by (simp add: composition_amounts freight_shipOrigin insuranceEUR_shipOrigin
      dutyEUR_shipOrigin goodsEUR_shipOrigin)

text \<open>
  C10. Two states that differ only in the shipment origin give the same freight result,
  insurance, customs base, duty, VAT base, VAT, landed cost without and with VAT, unit
  landed cost and sensitivity curve, and the same amounts in the cost chart; the shipment
  origin is read only for the label of the freight slice.
\<close>

theorem shipOrigin_changes_no_amount:
  "calcFreight (cfg\<lparr>shipOrigin := s\<rparr>) q = calcFreight (cfg\<lparr>shipOrigin := s'\<rparr>) q
   \<and> freight (cfg\<lparr>shipOrigin := s\<rparr>) = freight (cfg\<lparr>shipOrigin := s'\<rparr>)
   \<and> goodsEUR (cfg\<lparr>shipOrigin := s\<rparr>) = goodsEUR (cfg\<lparr>shipOrigin := s'\<rparr>)
   \<and> insuranceEUR (cfg\<lparr>shipOrigin := s\<rparr>) = insuranceEUR (cfg\<lparr>shipOrigin := s'\<rparr>)
   \<and> customsBase (cfg\<lparr>shipOrigin := s\<rparr>) = customsBase (cfg\<lparr>shipOrigin := s'\<rparr>)
   \<and> effectiveDutyPct (cfg\<lparr>shipOrigin := s\<rparr>) = effectiveDutyPct (cfg\<lparr>shipOrigin := s'\<rparr>)
   \<and> dutyEUR (cfg\<lparr>shipOrigin := s\<rparr>) = dutyEUR (cfg\<lparr>shipOrigin := s'\<rparr>)
   \<and> vatBase (cfg\<lparr>shipOrigin := s\<rparr>) = vatBase (cfg\<lparr>shipOrigin := s'\<rparr>)
   \<and> vatEUR (cfg\<lparr>shipOrigin := s\<rparr>) = vatEUR (cfg\<lparr>shipOrigin := s'\<rparr>)
   \<and> landedExVAT (cfg\<lparr>shipOrigin := s\<rparr>) = landedExVAT (cfg\<lparr>shipOrigin := s'\<rparr>)
   \<and> landedInclVAT (cfg\<lparr>shipOrigin := s\<rparr>) = landedInclVAT (cfg\<lparr>shipOrigin := s'\<rparr>)
   \<and> unitLanded (cfg\<lparr>shipOrigin := s\<rparr>) = unitLanded (cfg\<lparr>shipOrigin := s'\<rparr>)
   \<and> sensitivityData (cfg\<lparr>shipOrigin := s\<rparr>) = sensitivityData (cfg\<lparr>shipOrigin := s'\<rparr>)
   \<and> map_sum id (map snd) (composition (cfg\<lparr>shipOrigin := s\<rparr>))
       = map_sum id (map snd) (composition (cfg\<lparr>shipOrigin := s'\<rparr>))"
  by (simp only: calcFreight_shipOrigin freight_shipOrigin goodsEUR_shipOrigin
      insuranceEUR_shipOrigin customsBase_shipOrigin effectiveDutyPct_shipOrigin
      dutyEUR_shipOrigin vatBase_shipOrigin vatEUR_shipOrigin landedExVAT_shipOrigin
      landedInclVAT_shipOrigin unitLanded_shipOrigin sensitivityData_shipOrigin
      composition_shipOrigin simp_thms)

lemma composition_labels:
  "composition (initialConfig\<lparr>shipOrigin := ''Korea''\<rparr>) =
     Inr [(''Mercadoria'', 27600), (''Frete (Korea)'', 524), (''Seguro'', 140.62),
          (''Despachante'', 120), (''THC/Porto'', 150), (''Outras Taxas'', 50)]"
  "composition (initialConfig\<lparr>shipOrigin := ''Brasil''\<rparr>) =
     Inr [(''Mercadoria'', 27600), (''Frete (Brasil)'', 524), (''Seguro'', 140.62),
          (''Despachante'', 120), (''THC/Porto'', 150), (''Outras Taxas'', 50)]"
  by code_simp+

theorem shipOrigin_changes_no_amount_witness:
  "unitLanded (initialConfig\<lparr>shipOrigin := ''Korea''\<rparr>)
     = unitLanded (initialConfig\<lparr>shipOrigin := ''Brasil''\<rparr>)
   \<and> sensitivityData (initialConfig\<lparr>shipOrigin := ''Korea''\<rparr>)
     = sensitivityData (initialConfig\<lparr>shipOrigin := ''Brasil''\<rparr>)
   \<and> composition (initialConfig\<lparr>shipOrigin := ''Korea''\<rparr>) =
       Inr [(''Mercadoria'', 27600), (''Frete (Korea)'', 524), (''Seguro'', 140.62),
            (''Despachante'', 120), (''THC/Porto'', 150), (''Outras Taxas'', 50)]
   \<and> composition (initialConfig\<lparr>shipOrigin := ''Brasil''\<rparr>) =
       Inr [(''Mercadoria'', 27600), (''Frete (Brasil)'', 524), (''Seguro'', 140.62),
            (''Despachante'', 120), (''THC/Porto'', 150), (''Outras Taxas'', 50)]"
  using shipOrigin_changes_no_amount [where cfg = initialConfig and s = "''Korea''"
      and s' = "''Brasil''" and q = 100]
    composition_labels
  by blast

end
